theory Spec2Isabelle
  imports Complex_Main "HOL-Library.Word" "HOL-Library.Stream"
    "HOL-Library.Char_ord" "HOL-Library.List_Lexorder"
begin

unbundle bit_operations_syntax

section \<open>JavaScript values used by the client\<close>

text \<open>
  Strings are lists of 8-bit characters, read as the bytes of the UTF-8 encoding that
  \<^verbatim>\<open>Hash.update\<close> digests. Concatenation and the digest are those of the program on every
  string. On ASCII text (the methods and the parameter names that the two callers of
  \<^verbatim>\<open>createFordSignature\<close> pass, and every constant of this program) the UTF-16 code-unit
  order of \<^verbatim>\<open>Array.prototype.sort\<close> is the byte order and \<^verbatim>\<open>toUpperCase\<close> changes exactly the
  letters a to z; beyond ASCII the two differ from this model, so what is proved of
  upper-casing and of sorting is proved of ASCII methods and parameter names.

  A value of static type \<^verbatim>\<open>string\<close> that may be \<^verbatim>\<open>undefined\<close> at run time (a field the
  server left out of a JSON body) is a \<open>string option\<close>, \<open>None\<close> for \<^verbatim>\<open>undefined\<close>.
\<close>

definition truthy :: "string option \<Rightarrow> bool" where
  "truthy v = (case v of None \<Rightarrow> False | Some s \<Rightarrow> s \<noteq> [])"

text \<open>\<^verbatim>\<open>a || b\<close> and \<^verbatim>\<open>a ?? b\<close> on such values, and their rendering in a template literal.\<close>

definition js_or :: "string option \<Rightarrow> string option \<Rightarrow> string option" where
  "js_or a b = (if truthy a then a else b)"

definition js_nullish :: "string option \<Rightarrow> string option \<Rightarrow> string option" where
  "js_nullish a b = (case a of None \<Rightarrow> b | Some s \<Rightarrow> Some s)"

definition template :: "string option \<Rightarrow> string" where
  "template v = (case v of None \<Rightarrow> ''undefined'' | Some s \<Rightarrow> s)"

text \<open>\<^verbatim>\<open>Array.prototype.join\<close> on an array of strings.\<close>

fun join :: "string \<Rightarrow> string list \<Rightarrow> string" where
  "join sep [] = []"
| "join sep [x] = x"
| "join sep (x # y # ys) = x @ sep @ join sep (y # ys)"

definition upper_char :: "char \<Rightarrow> char" where
  "upper_char c =
     (let n = (of_char c :: nat) in if 97 \<le> n \<and> n \<le> 122 then char_of (n - 32) else c)"

definition toUpperCase :: "string \<Rightarrow> string" where
  "toUpperCase s = map upper_char s"

text \<open>
  \<^verbatim>\<open>Number.prototype.toString\<close> on an integral number below \<open>10\<^sup>2\<^sup>1\<close> in magnitude (a
  timestamp, a status, a clamped property value): the decimal digits, with a sign.
\<close>

definition digit_char :: "int \<Rightarrow> char" where
  "digit_char d = ''0123456789'' ! nat d"

function dec_digits :: "int \<Rightarrow> string" where
  "dec_digits n = (if n < 10 then [digit_char n] else dec_digits (n div 10) @ [digit_char (n mod 10)])"
  by pat_completeness auto
termination
  by (relation "measure nat") auto

declare dec_digits.simps [simp del]

definition int_toString :: "int \<Rightarrow> string" where
  "int_toString n = (if n < 0 then ''-'' @ dec_digits (- n) else dec_digits n)"

section \<open>The 128-bit digest\<close>

text \<open>
  \<^verbatim>\<open>crypto.createHash("md5").update(s).digest("hex")\<close> is Node's built-in MD5. It is
  modelled after RFC 1321: padding to a multiple of 64 bytes, little-endian 32-bit words,
  four rounds of sixteen steps on each block, and the state written out as 16 bytes, each
  as two lowercase hexadecimal digits.
\<close>

type_synonym word32 = "32 word"
type_synonym md5_state = "word32 \<times> word32 \<times> word32 \<times> word32"

definition md5_K :: "word32 list" where
  "md5_K = [
  0xd76aa478, 0xe8c7b756, 0x242070db, 0xc1bdceee,
  0xf57c0faf, 0x4787c62a, 0xa8304613, 0xfd469501,
  0x698098d8, 0x8b44f7af, 0xffff5bb1, 0x895cd7be,
  0x6b901122, 0xfd987193, 0xa679438e, 0x49b40821,
  0xf61e2562, 0xc040b340, 0x265e5a51, 0xe9b6c7aa,
  0xd62f105d, 0x02441453, 0xd8a1e681, 0xe7d3fbc8,
  0x21e1cde6, 0xc33707d6, 0xf4d50d87, 0x455a14ed,
  0xa9e3e905, 0xfcefa3f8, 0x676f02d9, 0x8d2a4c8a,
  0xfffa3942, 0x8771f681, 0x6d9d6122, 0xfde5380c,
  0xa4beea44, 0x4bdecfa9, 0xf6bb4b60, 0xbebfbc70,
  0x289b7ec6, 0xeaa127fa, 0xd4ef3085, 0x04881d05,
  0xd9d4d039, 0xe6db99e5, 0x1fa27cf8, 0xc4ac5665,
  0xf4292244, 0x432aff97, 0xab9423a7, 0xfc93a039,
  0x655b59c3, 0x8f0ccc92, 0xffeff47d, 0x85845dd1,
  0x6fa87e4f, 0xfe2ce6e0, 0xa3014314, 0x4e0811a1,
  0xf7537e82, 0xbd3af235, 0x2ad7d2bb, 0xeb86d391]"

definition md5_s :: "nat list" where
  "md5_s = [7, 12, 17, 22, 7, 12, 17, 22, 7, 12, 17, 22, 7, 12, 17, 22,
            5, 9, 14, 20, 5, 9, 14, 20, 5, 9, 14, 20, 5, 9, 14, 20,
            4, 11, 16, 23, 4, 11, 16, 23, 4, 11, 16, 23, 4, 11, 16, 23,
            6, 10, 15, 21, 6, 10, 15, 21, 6, 10, 15, 21, 6, 10, 15, 21]"

definition rotl32 :: "nat \<Rightarrow> word32 \<Rightarrow> word32" where
  "rotl32 n w = push_bit n w OR drop_bit (32 - n) w"

definition md5_step :: "word32 list \<Rightarrow> md5_state \<Rightarrow> nat \<Rightarrow> md5_state" where
  "md5_step M st i = (case st of (A, B, C, D) \<Rightarrow>
     let (F, g) =
           (if i < 16 then ((B AND C) OR (NOT B AND D), i)
            else if i < 32 then ((D AND B) OR (NOT D AND C), (5 * i + 1) mod 16)
            else if i < 48 then (B XOR C XOR D, (3 * i + 5) mod 16)
            else (C XOR (B OR NOT D), (7 * i) mod 16));
         F' = F + A + md5_K ! i + M ! g
     in (D, B + rotl32 (md5_s ! i) F', B, C))"

definition md5_block :: "md5_state \<Rightarrow> word32 list \<Rightarrow> md5_state" where
  "md5_block st M = (case st of (a0, b0, c0, d0) \<Rightarrow>
     case foldl (md5_step M) st [0..<64] of (A, B, C, D) \<Rightarrow>
       (a0 + A, b0 + B, c0 + C, d0 + D))"

fun le_word :: "int list \<Rightarrow> word32" where
  "le_word [] = 0"
| "le_word (b # bs) = word_of_int b + push_bit 8 (le_word bs)"

fun chunks :: "nat \<Rightarrow> nat \<Rightarrow> 'a list \<Rightarrow> 'a list list" where
  "chunks 0 n xs = []"
| "chunks (Suc k) n xs = take n xs # chunks k n (drop n xs)"

fun le_bytes :: "nat \<Rightarrow> int \<Rightarrow> int list" where
  "le_bytes 0 v = []"
| "le_bytes (Suc k) v = (v mod 256) # le_bytes k (v div 256)"

definition md5_pad :: "int list \<Rightarrow> int list" where
  "md5_pad bs = bs @ [128] @ replicate ((119 - length bs mod 64) mod 64) 0
                 @ le_bytes 8 ((8 * int (length bs)) mod 18446744073709551616)"

definition md5_raw :: "int list \<Rightarrow> int list" where
  "md5_raw bs =
     (let p = md5_pad bs;
          blocks = chunks (length p div 64) 64 p;
          ws = map (\<lambda>b. map le_word (chunks 16 4 b)) blocks
      in case foldl md5_block (0x67452301, 0xefcdab89, 0x98badcfe, 0x10325476) ws of
           (a, b, c, d) \<Rightarrow> concat (map (\<lambda>w. le_bytes 4 (uint w)) [a, b, c, d]))"

definition hex_chars :: string where
  "hex_chars = ''0123456789abcdef''"

definition hex_digit :: "int \<Rightarrow> char" where
  "hex_digit n = hex_chars ! nat (n mod 16)"

definition hex_byte :: "int \<Rightarrow> string" where
  "hex_byte b = [hex_digit (b div 16), hex_digit b]"

definition md5_hex :: "string \<Rightarrow> string" where
  "md5_hex s = concat (map hex_byte (md5_raw (map of_char s)))"

section \<open>constants.ts\<close>

definition AUTH_BASE_URL :: string where "AUTH_BASE_URL = ''https://auth-prod.api.wyze.com''"
definition API_BASE_URL :: string where "API_BASE_URL = ''https://api.wyzecam.com''"
definition LOCK_BASE_URL :: string where "LOCK_BASE_URL = ''https://yd-saas-toc.wyzecam.com''"
definition AUTH_API_KEY :: string where "AUTH_API_KEY = ''WMXHYf79Nr5gIlt3r0r7p9Tcw5bvs6BB4U8O8nGJ''"
definition APP_NAME :: string where "APP_NAME = ''com.hualai.WyzeCam''"
definition APP_VER :: string where "APP_VER = ''wyze_developer_api''"
definition APP_VERSION :: string where "APP_VERSION = ''wyze_developer_api''"
definition PHONE_ID :: string where "PHONE_ID = ''wyze_developer_api''"
definition SC :: string where "SC = ''wyze_developer_api''"
definition SV :: string where "SV = ''wyze_developer_api''"
definition PHONE_SYSTEM_TYPE :: string where "PHONE_SYSTEM_TYPE = ''1''"
definition FORD_APP_KEY :: string where "FORD_APP_KEY = ''275965684684dbdaf29a0ed9''"
definition FORD_APP_SECRET :: string where "FORD_APP_SECRET = ''4deekof1ba311c5c33a9cb8e12787e8c''"
definition TOKEN_REFRESH_INTERVAL :: int where "TOKEN_REFRESH_INTERVAL = 48 * 60 * 60 * 1000"
definition PropertyId_BRIGHTNESS :: string where "PropertyId_BRIGHTNESS = ''P1501''"
definition PropertyId_COLOR_TEMP :: string where "PropertyId_COLOR_TEMP = ''P1502''"

section \<open>auth.ts: the password hash\<close>

text \<open>
  \<^verbatim>\<open>let hash = password; for (let i = 0; i < 3; i++) hash = md5hex(hash); return hash;\<close>
\<close>

function hashPassword_loop :: "nat \<Rightarrow> string \<Rightarrow> string" where
  "hashPassword_loop i hash =
     (if i < 3 then hashPassword_loop (i + 1) (md5_hex hash) else hash)"
  by pat_completeness auto
termination
  by (relation "measure (\<lambda>(i, hash). 3 - i)") auto

declare hashPassword_loop.simps [simp del]

definition hashPassword :: "string \<Rightarrow> string" where
  "hashPassword password = hashPassword_loop 0 password"

section \<open>api.ts: the signature of the lock API\<close>

text \<open>
  A \<^verbatim>\<open>Record<string, string>\<close> is the list of its entries in the order \<^verbatim>\<open>Object.keys\<close>
  enumerates them; an object has each key once. \<^verbatim>\<open>params[k]\<close> is the value stored under
  \<open>k\<close>, and \<^verbatim>\<open>undefined\<close> (rendered "undefined" by the template literal) when there is none.
  The values are declared \<^verbatim>\<open>string\<close> and, like every such value here, may be \<^verbatim>\<open>undefined\<close>
  at run time.
\<close>

type_synonym params = "(string \<times> string option) list"

definition Object_keys :: "params \<Rightarrow> string list" where
  "Object_keys ps = map fst ps"

definition params_get :: "params \<Rightarrow> string \<Rightarrow> string option" where
  "params_get ps k = (case map_of ps k of None \<Rightarrow> None | Some v \<Rightarrow> v)"

definition fordParamString :: "params \<Rightarrow> string" where
  "fordParamString ps =
     (let sortedKeys = sort (Object_keys ps)
      in join ''&'' (map (\<lambda>k. k @ ''='' @ template (params_get ps k)) sortedKeys))"

definition fordSignString :: "string \<Rightarrow> string \<Rightarrow> params \<Rightarrow> string" where
  "fordSignString method path ps =
     toUpperCase method @ path @ fordParamString ps @ FORD_APP_SECRET"

definition createFordSignature :: "string \<Rightarrow> string \<Rightarrow> params \<Rightarrow> string \<Rightarrow> string" where
  "createFordSignature method path ps timestamp = md5_hex (fordSignString method path ps)"

section \<open>types.ts\<close>

record WyzeCredentials =
  email :: string
  password :: string
  apiKey :: string
  keyId :: string

text \<open>
  \<^verbatim>\<open>WyzeTokens\<close>. The interface declares both tokens as \<^verbatim>\<open>string\<close>; at run time the fields
  hold whatever the response carried, so they are optional strings here. The field
  \<^verbatim>\<open>refreshToken\<close> is called \<open>refreshTok\<close>, the name \<open>refreshToken\<close> being the function's.
\<close>

record WyzeTokens =
  accessToken :: "string option"
  refreshTok :: "string option"
  expiresAt :: int

text \<open>
  \<^verbatim>\<open>WyzeLoginResponse\<close>, with the fields the code reads (\<^verbatim>\<open>user_id\<close> and \<^verbatim>\<open>mfa_details\<close>
  are never read). A field is \<open>None\<close> when the JSON body does not have it.
\<close>

record WyzeLoginResponse =
  access_token :: "string option"
  refresh_token :: "string option"
  mfa_options :: "string list option"

text \<open>\<^verbatim>\<open>code: string | number\<close> of the response envelope.\<close>

datatype code = CodeStr string | CodeNum int

text \<open>
  The body of a response, \<^verbatim>\<open>WyzeApiResponse<WyzeLoginResponse>\<close>, together with the
  top-level fields that \<^verbatim>\<open>login\<close> reads through its untyped view \<^verbatim>\<open>dataAny\<close> of the same
  object (\<open>any_access_token\<close> is \<^verbatim>\<open>dataAny.access_token\<close>, and so on) and the text that
  \<^verbatim>\<open>JSON.stringify\<close> gives for the body.
\<close>

record response_body =
  code :: "code option"
  msg :: "string option"
  data :: "WyzeLoginResponse option"
  any_access_token :: "string option"
  any_refresh_token :: "string option"
  any_message :: "string option"
  any_description :: "string option"
  json_text :: string

text \<open>
  An \<^verbatim>\<open>AxiosError\<close>: \<^verbatim>\<open>error.response\<close> (status and body) when the server answered with a
  failure status, \<^verbatim>\<open>error.code\<close> and \<^verbatim>\<open>error.message\<close>.
\<close>

record http_response =
  status :: int
  response_data :: "response_body option"

record AxiosError =
  response :: "http_response option"
  error_code :: "string option"
  error_message :: string

text \<open>
  What a \<^verbatim>\<open>throw\<close> carries: an \<^verbatim>\<open>Error\<close> with its message, a \<^verbatim>\<open>TypeError\<close> of the runtime,
  an \<^verbatim>\<open>AxiosError\<close>, or a value that is no \<^verbatim>\<open>Error\<close> at all, kept as the text
  \<^verbatim>\<open>String(value)\<close> gives.
\<close>

datatype exn = Error string | TypeError string | Axios AxiosError | NonError string

section \<open>The process state and its environment\<close>

text \<open>
  The module variables \<^verbatim>\<open>currentTokens\<close> and \<^verbatim>\<open>credentials\<close>, and the environment the
  code runs in: \<open>clock\<close> holds the values that the coming calls of \<^verbatim>\<open>Date.now()\<close> return,
  \<open>network\<close> the outcomes of the coming axios calls (a rejection with an \<^verbatim>\<open>AxiosError\<close> or
  the body of a successful response), \<open>requests\<close> the requests sent so far. The 30 second
  timeout of a call shows up as a rejection; writes to the console are left out.
\<close>

datatype jval = JStr string | JNum int | JUndefined

record request =
  req_method :: string
  req_url :: string
  req_payload :: "(string \<times> jval) list"
  req_headers :: "(string \<times> string) list"

record world =
  currentTokens :: "WyzeTokens option"
  credentials :: "WyzeCredentials option"
  clock :: "int stream"
  network :: "(AxiosError + response_body) stream"
  requests :: "request list"

type_synonym 'a io = "world \<Rightarrow> (exn + 'a) \<times> world"

definition Date_now :: "world \<Rightarrow> int \<times> world" where
  "Date_now w = (shd (clock w), w\<lparr>clock := stl (clock w)\<rparr>)"

definition axios_request :: "request \<Rightarrow> world \<Rightarrow> (AxiosError + response_body) \<times> world" where
  "axios_request req w =
     (shd (network w), w\<lparr>network := stl (network w), requests := requests w @ [req]\<rparr>)"

definition jstr :: "string option \<Rightarrow> jval" where
  "jstr v = (case v of None \<Rightarrow> JUndefined | Some s \<Rightarrow> JStr s)"

text \<open>\<^verbatim>\<open>data.code !== "1" && data.code !== 1\<close>\<close>

definition code_failed :: "code option \<Rightarrow> bool" where
  "code_failed c = (c \<noteq> Some (CodeStr ''1'') \<and> c \<noteq> Some (CodeNum 1))"

definition code_template :: "code option \<Rightarrow> string" where
  "code_template c =
     (case c of None \<Rightarrow> ''undefined'' | Some (CodeStr s) \<Rightarrow> s | Some (CodeNum n) \<Rightarrow> int_toString n)"

section \<open>auth.ts: the token manager\<close>

definition setCredentials :: "WyzeCredentials \<Rightarrow> world \<Rightarrow> world" where
  "setCredentials creds w = w\<lparr>credentials := Some creds\<rparr>"

definition getTokens :: "world \<Rightarrow> WyzeTokens option" where
  "getTokens w = currentTokens w"

definition isTokenExpired :: "world \<Rightarrow> bool \<times> world" where
  "isTokenExpired w =
     (case currentTokens w of
        None \<Rightarrow> (True, w)
      | Some toks \<Rightarrow> (let (now, w1) = Date_now w in (now \<ge> expiresAt toks, w1)))"

definition isTokenNearExpiry :: "world \<Rightarrow> bool \<times> world" where
  "isTokenNearExpiry w =
     (case currentTokens w of
        None \<Rightarrow> (True, w)
      | Some toks \<Rightarrow>
          (let (now, w1) = Date_now w in (now \<ge> expiresAt toks - 60 * 60 * 1000, w1)))"

definition auth_headers :: "WyzeCredentials \<Rightarrow> (string \<times> string) list" where
  "auth_headers creds =
     [(''Content-Type'', ''application/json''), (''x-api-key'', AUTH_API_KEY),
      (''keyid'', keyId creds), (''apikey'', apiKey creds)]"

definition login_request :: "WyzeCredentials \<Rightarrow> string \<Rightarrow> string \<Rightarrow> request" where
  "login_request creds hashedPassword nonce =
     \<lparr>req_method = ''POST'', req_url = AUTH_BASE_URL @ ''/api/user/login'',
      req_payload = [(''email'', JStr (email creds)), (''password'', JStr hashedPassword),
                     (''nonce'', JStr nonce)],
      req_headers = auth_headers creds\<rparr>"

text \<open>
  Lines 84 to 98 of \<^verbatim>\<open>login\<close>: the token pair is read from the top level of the body when
  \<^verbatim>\<open>dataAny.access_token\<close> is truthy, else from \<^verbatim>\<open>data.data\<close> when \<^verbatim>\<open>data.data?.access_token\<close>
  is truthy, else both stay \<^verbatim>\<open>undefined\<close>.
\<close>

definition login_tokens :: "response_body \<Rightarrow> string option \<times> string option" where
  "login_tokens body =
     (if truthy (any_access_token body) then (any_access_token body, any_refresh_token body)
      else case data body of
             None \<Rightarrow> (None, None)
           | Some d \<Rightarrow> if truthy (access_token d) then (access_token d, refresh_token d)
                       else (None, None))"

definition mfa_message :: "string list \<Rightarrow> string" where
  "mfa_message opts =
     ''MFA is required for this account. MFA options: '' @ join '', '' opts @ ''. '' @
     ''MFA is not yet supported. Please disable MFA or use a different authentication method.''"

text \<open>
  Lines 100 to 117: the checks on the parsed body. The result is the error thrown, or the
  pair \<^verbatim>\<open>accessToken\<close>, \<^verbatim>\<open>refreshToken\<close> that passed them.
\<close>

definition login_check :: "response_body \<Rightarrow> exn + string option \<times> string option" where
  "login_check body =
     (let (accessTok, refreshTk) = login_tokens body;
          thrown =
            (if \<not> truthy accessTok then
               (if code_failed (code body) then
                  (case (case data body of None \<Rightarrow> None | Some d \<Rightarrow> mfa_options d) of
                     Some (opt # opts) \<Rightarrow> Some (Error (mfa_message (opt # opts)))
                   | _ \<Rightarrow>
                     (let errorMsg = js_or (msg body) (js_or (any_message body)
                                       (js_or (any_description body) (Some (json_text body))))
                      in Some (Error (''Login failed (code '' @ code_template (code body) @
                                      ''): '' @ template errorMsg))))
                else None)
             else None)
      in case thrown of
           Some err \<Rightarrow> Inl err
         | None \<Rightarrow>
             if \<not> truthy accessTok \<or> \<not> truthy refreshTk then
               Inl (Error ''Login failed: No access token in response'')
             else Inr (accessTok, refreshTk))"

text \<open>
  The \<^verbatim>\<open>catch\<close> block of \<^verbatim>\<open>login\<close>: what it throws for the error it caught.
\<close>

definition login_catch :: "exn \<Rightarrow> exn" where
  "login_catch err =
     (case err of
        Axios e \<Rightarrow>
          (if map_option status (response e) = Some 401 then
             Error ''Invalid credentials. Please check your email, password, API key, and key ID.''
           else
             let responseData = (case response e of None \<Rightarrow> None | Some r \<Rightarrow> response_data r);
                 field = (\<lambda>f. case responseData of None \<Rightarrow> None | Some b \<Rightarrow> f b);
                 errorMsg = js_or (field msg) (js_or (field any_message)
                              (js_or (field any_description) (Some (error_message e))))
             in Error (''Login request failed ('' @
                       (case response e of None \<Rightarrow> ''undefined''
                        | Some r \<Rightarrow> int_toString (status r)) @
                       ''): '' @ template errorMsg))
      | _ \<Rightarrow> err)"

definition login :: "WyzeTokens io" where
  "login w =
     (case credentials w of
        None \<Rightarrow> (Inl (Error ''Credentials not set. Call setCredentials first.''), w)
      | Some creds \<Rightarrow>
          (let hashedPassword = hashPassword (password creds);
               (now0, w1) = Date_now w;
               nonce = int_toString now0;
               (result, w2) = axios_request (login_request creds hashedPassword nonce) w1
           in case result of
                Inl e \<Rightarrow> (Inl (login_catch (Axios e)), w2)
              | Inr body \<Rightarrow>
                  (case login_check body of
                     Inl err \<Rightarrow> (Inl (login_catch err), w2)
                   | Inr (accessTok, refreshTk) \<Rightarrow>
                       (let (now1, w3) = Date_now w2;
                            toks = \<lparr>accessToken = accessTok, refreshTok = refreshTk,
                                    expiresAt = now1 + TOKEN_REFRESH_INTERVAL\<rparr>
                        in (Inr toks, w3\<lparr>currentTokens := Some toks\<rparr>)))))"

definition refresh_request :: "WyzeCredentials \<Rightarrow> WyzeTokens \<Rightarrow> int \<Rightarrow> request" where
  "refresh_request creds toks ts =
     \<lparr>req_method = ''POST'', req_url = API_BASE_URL @ ''/app/user/refresh_token'',
      req_payload = [(''refresh_token'', jstr (refreshTok toks)), (''app_name'', JStr APP_NAME),
                     (''app_ver'', JStr APP_VER), (''app_version'', JStr APP_VERSION),
                     (''phone_id'', JStr PHONE_ID), (''phone_system_type'', JStr PHONE_SYSTEM_TYPE),
                     (''sc'', JStr SC), (''sv'', JStr SV), (''ts'', JNum ts)],
      req_headers = auth_headers creds\<rparr>"

text \<open>
  \<^verbatim>\<open>refreshToken\<close>. Inside its \<^verbatim>\<open>try\<close>, a rejected request and the \<^verbatim>\<open>TypeError\<close> of reading
  \<^verbatim>\<open>data.data.access_token\<close> when \<^verbatim>\<open>data.data\<close> is missing both reach the \<^verbatim>\<open>catch\<close>, which
  calls \<^verbatim>\<open>login\<close>; a failure code returns \<^verbatim>\<open>login()\<close> directly. Otherwise the fields of
  \<^verbatim>\<open>data.data\<close> are stored as they are.
\<close>

definition refreshToken :: "WyzeTokens io" where
  "refreshToken w =
     (case currentTokens w of
        None \<Rightarrow> login w
      | Some toks \<Rightarrow>
          (case credentials w of
             None \<Rightarrow> (Inl (Error ''Credentials not set. Call setCredentials first.''), w)
           | Some creds \<Rightarrow>
               (let (ts, w1) = Date_now w;
                    (result, w2) = axios_request (refresh_request creds toks ts) w1
                in case result of
                     Inl e \<Rightarrow> login w2
                   | Inr body \<Rightarrow>
                       if code_failed (code body) then login w2
                       else (case data body of
                               None \<Rightarrow> login w2
                             | Some d \<Rightarrow>
                                 (let (now1, w3) = Date_now w2;
                                      toks' = \<lparr>accessToken = access_token d,
                                               refreshTok = refresh_token d,
                                               expiresAt = now1 + TOKEN_REFRESH_INTERVAL\<rparr>
                                  in (Inr toks', w3\<lparr>currentTokens := Some toks'\<rparr>))))))"

text \<open>
  The end of \<^verbatim>\<open>ensureValidToken\<close>: \<^verbatim>\<open>if (!currentTokens) throw ...; return
  currentTokens.accessToken;\<close>
\<close>

definition return_accessToken :: "string option io" where
  "return_accessToken w =
     (case currentTokens w of
        None \<Rightarrow> (Inl (Error ''Failed to obtain access token''), w)
      | Some toks \<Rightarrow> (Inr (accessToken toks), w))"

definition await_then :: "'a io \<Rightarrow> 'b io \<Rightarrow> 'b io" where
  "await_then f g w = (case f w of (Inl err, w') \<Rightarrow> (Inl err, w') | (Inr _, w') \<Rightarrow> g w')"

definition ensureValidToken :: "string option io" where
  "ensureValidToken w =
     (let (expired, w1) = (if currentTokens w = None then (True, w) else isTokenExpired w) in
      if expired then await_then login return_accessToken w1
      else let (nearExpiry, w2) = isTokenNearExpiry w1 in
           if nearExpiry then await_then refreshToken return_accessToken w2
           else return_accessToken w2)"

section \<open>api.ts: the client\<close>

definition createBasePayload :: "string option \<Rightarrow> world \<Rightarrow> (string \<times> jval) list \<times> world" where
  "createBasePayload accessTok w =
     (let (ts, w1) = Date_now w in
      ([(''access_token'', jstr accessTok), (''app_name'', JStr APP_NAME),
        (''app_ver'', JStr APP_VER), (''app_version'', JStr APP_VERSION),
        (''phone_id'', JStr PHONE_ID), (''phone_system_type'', JStr PHONE_SYSTEM_TYPE),
        (''sc'', JStr SC), (''sv'', JStr SV), (''ts'', JNum ts)], w1))"

definition handleApiError :: "exn \<Rightarrow> string" where
  "handleApiError err =
     (case err of
        Axios e \<Rightarrow>
          (case response e of
             Some r \<Rightarrow>
               (let field = (\<lambda>f. case response_data r of None \<Rightarrow> None | Some b \<Rightarrow> f b);
                    m = js_nullish (field msg) (js_nullish (field any_message) (Some ''Unknown error''))
                in if status r = 401 then
                     ''Error: Authentication failed. Please check your credentials.''
                   else if status r = 403 then
                     ''Error: Access denied. You may not have permission for this operation.''
                   else if status r = 404 then
                     ''Error: Resource not found. Please check the device MAC address.''
                   else if status r = 429 then
                     ''Error: Rate limit exceeded. Please wait before making more requests.''
                   else ''Error: API request failed ('' @ int_toString (status r) @ ''): '' @
                        template m)
           | None \<Rightarrow>
               if error_code e = Some ''ECONNABORTED'' then
                 ''Error: Request timed out. Please try again.''
               else if error_code e = Some ''ENOTFOUND'' then
                 ''Error: Unable to reach Wyze servers. Please check your internet connection.''
               else ''Error: Network error: '' @ error_message e)
      | Error m \<Rightarrow> ''Error: '' @ m
      | TypeError m \<Rightarrow> ''Error: '' @ m
      | NonError s \<Rightarrow> ''Error: '' @ s)"

definition set_property_request ::
  "(string \<times> jval) list \<Rightarrow> string \<Rightarrow> string \<Rightarrow> string \<Rightarrow> string \<Rightarrow> request" where
  "set_property_request base deviceMac deviceModel propertyId propertyValue =
     \<lparr>req_method = ''POST'', req_url = API_BASE_URL @ ''/app/v2/device/set_property'',
      req_payload = base @ [(''device_mac'', JStr deviceMac), (''device_model'', JStr deviceModel),
                            (''pid'', JStr propertyId), (''pvalue'', JStr propertyValue)],
      req_headers = [(''Content-Type'', ''application/json'')]\<rparr>"

definition setDeviceProperty :: "string \<Rightarrow> string \<Rightarrow> string \<Rightarrow> string \<Rightarrow> unit io" where
  "setDeviceProperty deviceMac deviceModel propertyId propertyValue w =
     (case ensureValidToken w of
        (Inl err, w1) \<Rightarrow> (Inl err, w1)
      | (Inr accessTok, w1) \<Rightarrow>
          (let (base, w2) = createBasePayload accessTok w1;
               (result, w3) = axios_request
                  (set_property_request base deviceMac deviceModel propertyId propertyValue) w2
           in case result of
                Inl e \<Rightarrow> (Inl (Axios e), w3)
              | Inr body \<Rightarrow>
                  if code_failed (code body) then
                    (Inl (Error (''Failed to set property: '' @ template (msg body))), w3)
                  else (Inr (), w3)))"

text \<open>
  A JavaScript \<^verbatim>\<open>number\<close>: a finite value, \<^verbatim>\<open>NaN\<close> or an infinity. The finite doubles are
  reals, and on them \<^verbatim>\<open>Math.round\<close> is exact: the integer \<open>\<lfloor>x + 1/2\<rfloor>\<close> (a tie goes up).
  \<^verbatim>\<open>Math.min\<close> and \<^verbatim>\<open>Math.max\<close> give \<^verbatim>\<open>NaN\<close> as soon as an argument is \<^verbatim>\<open>NaN\<close>. Negative zero
  is not told apart from zero: it is below the lower bound of both clamps.
  \<^verbatim>\<open>Number.prototype.toString\<close> of an integral value is its decimal digits as long as the
  value is below \<open>10\<^sup>2\<^sup>1\<close> in magnitude, as every clamped value is.
\<close>

datatype 'a number = Num 'a | NaN | PosInfinity | NegInfinity

fun Math_round :: "real number \<Rightarrow> int number" where
  "Math_round (Num x) = Num \<lfloor>x + 1 / 2\<rfloor>"
| "Math_round NaN = NaN"
| "Math_round PosInfinity = PosInfinity"
| "Math_round NegInfinity = NegInfinity"

fun Math_min :: "('a::linorder) number \<Rightarrow> 'a number \<Rightarrow> 'a number" where
  "Math_min NaN y = NaN"
| "Math_min x NaN = NaN"
| "Math_min NegInfinity y = NegInfinity"
| "Math_min x NegInfinity = NegInfinity"
| "Math_min PosInfinity y = y"
| "Math_min x PosInfinity = x"
| "Math_min (Num a) (Num b) = Num (min a b)"

fun Math_max :: "('a::linorder) number \<Rightarrow> 'a number \<Rightarrow> 'a number" where
  "Math_max NaN y = NaN"
| "Math_max x NaN = NaN"
| "Math_max PosInfinity y = PosInfinity"
| "Math_max x PosInfinity = PosInfinity"
| "Math_max NegInfinity y = y"
| "Math_max x NegInfinity = x"
| "Math_max (Num a) (Num b) = Num (max a b)"

fun Number_toString :: "int number \<Rightarrow> string" where
  "Number_toString (Num n) = int_toString n"
| "Number_toString NaN = ''NaN''"
| "Number_toString PosInfinity = ''Infinity''"
| "Number_toString NegInfinity = ''-Infinity''"

definition setDeviceBrightness :: "string \<Rightarrow> string \<Rightarrow> real number \<Rightarrow> unit io" where
  "setDeviceBrightness deviceMac deviceModel brightness w =
     (let v = Math_max (Num 1) (Math_min (Num 100) (Math_round brightness))
      in setDeviceProperty deviceMac deviceModel PropertyId_BRIGHTNESS (Number_toString v) w)"

definition setDeviceColorTemp :: "string \<Rightarrow> string \<Rightarrow> real number \<Rightarrow> unit io" where
  "setDeviceColorTemp deviceMac deviceModel colorTemp w =
     (let v = Math_max (Num 2700) (Math_min (Num 6500) (Math_round colorTemp))
      in setDeviceProperty deviceMac deviceModel PropertyId_COLOR_TEMP (Number_toString v) w)"

text \<open>\<^verbatim>\<open>controlLock\<close>, whose \<^verbatim>\<open>action\<close> is \<^verbatim>\<open>"lock" | "unlock"\<close>.\<close>

datatype lock_action = Lock | Unlock

fun action_string :: "lock_action \<Rightarrow> string" where
  "action_string Lock = ''lock''"
| "action_string Unlock = ''unlock''"

definition controlLock_params :: "string option \<Rightarrow> string \<Rightarrow> lock_action \<Rightarrow> string \<Rightarrow> params" where
  "controlLock_params accessTok timestamp action deviceMac =
     [(''access_token'', accessTok), (''key'', Some FORD_APP_KEY),
      (''timestamp'', Some timestamp), (''action'', Some (action_string action)),
      (''uuid'', Some deviceMac)]"

definition controlLock :: "string \<Rightarrow> string \<Rightarrow> lock_action \<Rightarrow> unit io" where
  "controlLock deviceMac deviceModel action w =
     (case ensureValidToken w of
        (Inl err, w1) \<Rightarrow> (Inl err, w1)
      | (Inr accessTok, w1) \<Rightarrow>
          (let (now, w2) = Date_now w1;
               timestamp = int_toString now;
               path = ''/openapi/lock/v1/control'';
               ps = controlLock_params accessTok timestamp action deviceMac;
               sign = createFordSignature ''POST'' path ps timestamp;
               (result, w3) = axios_request
                  \<lparr>req_method = ''POST'', req_url = LOCK_BASE_URL @ path,
                   req_payload = map (\<lambda>(k, v). (k, jstr v)) ps @ [(''sign'', JStr sign)],
                   req_headers = [(''Content-Type'', ''application/json'')]\<rparr> w2
           in case result of
                Inl e \<Rightarrow> (Inl (Axios e), w3)
              | Inr body \<Rightarrow>
                  if code_failed (code body) then
                    (Inl (Error (''Failed to '' @ action_string action @ '' lock: '' @
                                 template (msg body))), w3)
                  else (Inr (), w3)))"

section \<open>Notions the properties are stated with\<close>

text \<open>\<^verbatim>\<open>String.prototype.startsWith\<close> and \<^verbatim>\<open>String.prototype.includes\<close> (\<open>str_includes\<close>).\<close>

fun startsWith :: "string \<Rightarrow> string \<Rightarrow> bool" where
  "startsWith s [] = True"
| "startsWith [] (c # cs) = False"
| "startsWith (x # xs) (c # cs) = (x = c \<and> startsWith xs cs)"

fun str_includes :: "string \<Rightarrow> string \<Rightarrow> bool" where
  "str_includes [] sub = (sub = [])"
| "str_includes (x # xs) sub = (startsWith (x # xs) sub \<or> str_includes xs sub)"

text \<open>ASCII strings, and the lowercase letters a to z.\<close>

definition is_ascii :: "string \<Rightarrow> bool" where
  "is_ascii s = list_all (\<lambda>c. (of_char c :: nat) < 128) s"

definition is_lower :: "char \<Rightarrow> bool" where
  "is_lower c = (97 \<le> (of_char c :: nat) \<and> (of_char c :: nat) \<le> 122)"

text \<open>
  A message suggests retrying when it has "try" in it, in any letter case ("try again",
  "retry"); it advises backing off when it has "wait" in it.
\<close>

definition suggests_retry :: "string \<Rightarrow> bool" where
  "suggests_retry m = str_includes (toUpperCase m) ''TRY''"

definition advises_backoff :: "string \<Rightarrow> bool" where
  "advises_backoff m = str_includes (toUpperCase m) ''WAIT''"

text \<open>
  The token pair is wholly present when both tokens are there in the sense \<^verbatim>\<open>login\<close> checks
  before it stores them (\<^verbatim>\<open>!accessToken || !refreshToken\<close> is false).
\<close>

definition pair_populated :: "WyzeTokens \<Rightarrow> bool" where
  "pair_populated toks = (truthy (accessToken toks) \<and> truthy (refreshTok toks))"

definition tokens_wholly_present_or_absent :: "world \<Rightarrow> bool" where
  "tokens_wholly_present_or_absent w =
     (case currentTokens w of None \<Rightarrow> True | Some toks \<Rightarrow> pair_populated toks)"

text \<open>The state right after \<^verbatim>\<open>refreshToken\<close> has sent its request.\<close>

definition after_refresh_request :: "world \<Rightarrow> world" where
  "after_refresh_request w =
     (case (currentTokens w, credentials w) of
        (Some toks, Some creds) \<Rightarrow>
          snd (axios_request (refresh_request creds toks (shd (clock w))) (snd (Date_now w)))
      | _ \<Rightarrow> w)"

text \<open>The outcome of the refresh call is a success: code 1 and a \<^verbatim>\<open>data\<close> object.\<close>

definition refresh_succeeded :: "AxiosError + response_body \<Rightarrow> bool" where
  "refresh_succeeded outcome =
     (case outcome of Inl e \<Rightarrow> False
      | Inr body \<Rightarrow> \<not> code_failed (code body) \<and> data body \<noteq> None)"

text \<open>Bodies, credentials and states for the concrete scenarios.\<close>

definition empty_body :: response_body where
  "empty_body = \<lparr>code = None, msg = None, data = None, any_access_token = None,
                  any_refresh_token = None, any_message = None, any_description = None,
                  json_text = ''{}''\<rparr>"

definition no_login_response :: WyzeLoginResponse where
  "no_login_response = \<lparr>access_token = None, refresh_token = None, mfa_options = None\<rparr>"

definition example_creds :: WyzeCredentials where
  "example_creds = \<lparr>email = ''user@example.com'', password = ''secret'',
                     apiKey = ''key'', keyId = ''id''\<rparr>"

definition issued_at :: "int \<Rightarrow> WyzeTokens" where
  "issued_at T = \<lparr>accessToken = Some ''access-0'', refreshTok = Some ''refresh-0'',
                   expiresAt = T + TOKEN_REFRESH_INTERVAL\<rparr>"

definition timed_out :: AxiosError where
  "timed_out = \<lparr>response = None, error_code = Some ''ECONNABORTED'',
                 error_message = ''timeout of 30000ms exceeded''\<rparr>"

text \<open>
  A state with credentials and the token pair \<open>toks\<close>, in which the clock stands at \<open>now\<close>,
  the next request gets the outcome \<open>outcome\<close> and every later one times out.
\<close>

definition scenario :: "WyzeTokens option \<Rightarrow> int \<Rightarrow> (AxiosError + response_body) \<Rightarrow> world" where
  "scenario toks now outcome =
     \<lparr>currentTokens = toks, credentials = Some example_creds, clock = sconst now,
      network = outcome ## sconst (Inl timed_out), requests = []\<rparr>"

definition top_level_body :: response_body where
  "top_level_body = empty_body\<lparr>any_access_token := Some ''access-1'',
      any_refresh_token := Some ''refresh-1'',
      data := Some \<lparr>access_token = Some ''other'', refresh_token = Some ''pair'',
                    mfa_options = None\<rparr>\<rparr>"

definition nested_body :: response_body where
  "nested_body = empty_body\<lparr>code := Some (CodeNum 1),
      data := Some \<lparr>access_token = Some ''access-1'', refresh_token = Some ''refresh-1'',
                    mfa_options = None\<rparr>\<rparr>"

definition mfa_body :: response_body where
  "mfa_body = empty_body\<lparr>code := Some (CodeNum 0),
      data := Some (no_login_response\<lparr>mfa_options := Some [''sms'']\<rparr>)\<rparr>"

definition mfa_success_code_body :: response_body where
  "mfa_success_code_body = empty_body\<lparr>code := Some (CodeNum 1),
      data := Some (no_login_response\<lparr>mfa_options := Some [''sms'']\<rparr>)\<rparr>"

definition failed_body :: response_body where
  "failed_body = empty_body\<lparr>code := Some (CodeNum 2001), msg := Some ''AccessTokenError''\<rparr>"

definition refresh_body_without_tokens :: response_body where
  "refresh_body_without_tokens = empty_body\<lparr>code := Some (CodeNum 1),
      data := Some no_login_response\<rparr>"

definition refresh_body_empty_tokens :: response_body where
  "refresh_body_empty_tokens = empty_body\<lparr>code := Some (CodeNum 1),
      data := Some \<lparr>access_token = Some '''', refresh_token = Some '''', mfa_options = None\<rparr>\<rparr>"

definition ok_body :: response_body where
  "ok_body = empty_body\<lparr>code := Some (CodeNum 1)\<rparr>"

definition dns_failure :: AxiosError where
  "dns_failure = \<lparr>response = None, error_code = Some ''ENOTFOUND'',
                   error_message = ''getaddrinfo ENOTFOUND api.wyzecam.com''\<rparr>"

definition http_failure :: "int \<Rightarrow> AxiosError" where
  "http_failure st = \<lparr>response = Some \<lparr>status = st, response_data = None\<rparr>,
                       error_code = Some ''ERR_BAD_REQUEST'',
                       error_message = ''Request failed''\<rparr>"

text \<open>The messages for the four statuses that \<^verbatim>\<open>handleApiError\<close> tells apart.\<close>

definition status_messages :: "string list" where
  "status_messages = map (\<lambda>st. handleApiError (Axios (http_failure st))) [401, 403, 404, 429]"

text \<open>The \<^verbatim>\<open>pvalue\<close> fields of the requests a state has sent.\<close>

definition sent_pvalues :: "world \<Rightarrow> jval option list" where
  "sent_pvalues w = map (\<lambda>r. map_of (req_payload r) ''pvalue'') (requests w)"

section \<open>The digest and the password hash\<close>

lemma length_le_bytes: "length (le_bytes k v) = k"
  by (induction k arbitrary: v) auto

lemma md5_raw_length: "length (md5_raw bs) = 16"
  by (simp add: md5_raw_def Let_def length_le_bytes split: prod.splits)

lemma md5_hex_length: "length (md5_hex s) = 32"
proof -
  have "length (concat (map hex_byte xs)) = 2 * length xs" for xs
    by (induction xs) (auto simp: hex_byte_def)
  then show ?thesis by (simp add: md5_hex_def md5_raw_length)
qed

lemma hex_digit_in: "hex_digit n \<in> set hex_chars"
proof -
  have "nat (n mod 16) < length hex_chars" by (simp add: hex_chars_def)
  then show ?thesis unfolding hex_digit_def by (rule nth_mem)
qed

lemma md5_hex_chars: "list_all (\<lambda>c. c \<in> set hex_chars) (md5_hex s)"
  by (simp add: md5_hex_def list_all_iff hex_byte_def hex_digit_in)

text \<open>The model of the digest on two test vectors of RFC 1321, of one and of two blocks.\<close>

lemma md5_hex_abc: "md5_hex ''abc'' = ''900150983cd24fb0d6963f7d28e17f72''"
  by code_simp

lemma md5_hex_alphanumeric:
  "md5_hex ''ABCDEFGHIJKLMNOPQRSTUVWXYZabcdefghijklmnopqrstuvwxyz0123456789'' =
   ''d174ab98d277d9f5a5611c2c9f419d9f''"
  by code_simp

lemma hashPassword_loop_3: "hashPassword_loop 0 p = md5_hex (md5_hex (md5_hex p))"
  by (simp add: hashPassword_loop.simps)

text \<open>
  C5. \<^verbatim>\<open>hashPassword\<close> applies the digest three times, first to the plaintext and then to
  the hexadecimal digest before; it has no other argument than the password (no salt, no
  iteration count), it is a function of the password, and its value always is 32
  hexadecimal characters.
\<close>

theorem hashPassword_triple_digest:
  "hashPassword p = md5_hex (md5_hex (md5_hex p)) \<and>
   length (hashPassword p) = 32 \<and>
   list_all (\<lambda>c. c \<in> set hex_chars) (hashPassword p)"
  by (simp add: hashPassword_def hashPassword_loop_3 md5_hex_length md5_hex_chars)

theorem hashPassword_triple_digest_witness:
  "hashPassword ''password'' = ''5a22e6c339c96c9c0513a46e44c39683'' \<and>
   length (hashPassword ''password'') = 32"
proof -
  have "md5_hex (md5_hex (md5_hex ''password'')) = ''5a22e6c339c96c9c0513a46e44c39683''"
    by code_simp
  then show ?thesis
    using hashPassword_triple_digest [of "''password''"] by simp
qed

section \<open>The signature of the lock API\<close>

lemma sorted_keys_unique:
  assumes "distinct (map fst ps)" "distinct (map fst qs)" "set ps = set qs"
  shows "sort (Object_keys ps) = sort (Object_keys qs)"
proof -
  have "set (map fst ps) = set (map fst qs)" using assms(3) by simp
  then show ?thesis
    unfolding Object_keys_def
    by (intro sorted_distinct_set_unique) (simp_all add: assms)
qed

lemma params_get_unique:
  assumes "distinct (map fst ps)" "distinct (map fst qs)" "set ps = set qs"
  shows "params_get ps = params_get qs"
proof -
  have "map_of ps = map_of qs" using assms by (simp add: map_of_inject_set)
  then show ?thesis by (simp add: params_get_def fun_eq_iff)
qed

lemma fordParamString_unique:
  assumes "distinct (map fst ps)" "distinct (map fst qs)" "set ps = set qs"
  shows "fordParamString ps = fordParamString qs"
  by (simp add: fordParamString_def sorted_keys_unique [OF assms] params_get_unique [OF assms])

lemma lower_shift: "97 \<le> (n::nat) \<Longrightarrow> n \<le> 122 \<Longrightarrow> (n - 32) mod 256 < 97"
  by simp

lemma upper_char_other: "\<not> is_lower c \<Longrightarrow> upper_char c = c"
  unfolding upper_char_def is_lower_def Let_def by (rule if_not_P)

lemma upper_char_lower: "is_lower c \<Longrightarrow> upper_char c = char_of (of_char c - 32 :: nat)"
  unfolding upper_char_def is_lower_def Let_def by (rule if_P)

lemma upper_char_not_lower: "\<not> is_lower (upper_char c)"
proof (cases "is_lower c")
  case True
  then have "(of_char c - 32 :: nat) mod 256 < 97"
    unfolding is_lower_def using lower_shift by blast
  then show ?thesis
    unfolding upper_char_lower [OF True] is_lower_def by simp
next
  case False
  then show ?thesis by (simp add: upper_char_other)
qed

lemma toUpperCase_no_lower: "list_all (\<lambda>c. \<not> is_lower c) (toUpperCase s)"
  by (simp add: toUpperCase_def list_all_iff upper_char_not_lower)

lemma toUpperCase_fixes: "list_all (\<lambda>c. \<not> is_lower c) s \<Longrightarrow> toUpperCase s = s"
  by (induction s) (simp_all add: toUpperCase_def upper_char_other)

text \<open>
  C4. For an ASCII method and ASCII parameter names, the signature is the digest, 32
  lowercase hexadecimal characters, of the upper-cased method (no letter a to z is left in
  it, and a method without such letters is unchanged), the path, the parameter string and
  the shared secret, one after the other; the parameter string joins \<open>key=value\<close> with \<open>&\<close>
  over the keys in sorted order, keys and values as they are. Two objects with the same
  entries, whatever the order they were inserted in, have the same parameter string and
  the same signature.
\<close>

theorem createFordSignature_canonical:
  assumes "is_ascii method" and "list_all is_ascii (map fst ps)"
    and "distinct (map fst ps)" and "distinct (map fst qs)" and "set ps = set qs"
  shows "createFordSignature method path ps ts =
           md5_hex (toUpperCase method @ path @
                    join ''&'' (map (\<lambda>k. k @ ''='' @ template (params_get ps k))
                                   (sort (map fst ps))) @
                    FORD_APP_SECRET) \<and>
         length (toUpperCase method) = length method \<and>
         list_all (\<lambda>c. \<not> is_lower c) (toUpperCase method) \<and>
         (list_all (\<lambda>c. \<not> is_lower c) method \<longrightarrow> toUpperCase method = method) \<and>
         sorted (sort (map fst ps)) \<and> set (sort (map fst ps)) = fst ` set ps \<and>
         length (createFordSignature method path ps ts) = 32 \<and>
         list_all (\<lambda>c. c \<in> set hex_chars) (createFordSignature method path ps ts) \<and>
         fordParamString ps = fordParamString qs \<and>
         createFordSignature method path ps ts = createFordSignature method path qs ts'"
proof -
  have u: "length (toUpperCase method) = length method"
    by (simp add: toUpperCase_def)
  show ?thesis
    using fordParamString_unique [OF assms(3-5)] u toUpperCase_no_lower [of "method"]
      toUpperCase_fixes [of "method"]
    by (simp add: createFordSignature_def fordSignString_def fordParamString_def Object_keys_def
        md5_hex_length md5_hex_chars)
qed

text \<open>
  The parameters z = 2, a = 1 give "a=1&z=2" in either insertion order, and the method
  "post" is signed as "POST"; an upper-case letter sorts before the underscore and that
  before a lowercase letter.
\<close>

theorem createFordSignature_canonical_witness:
  "fordParamString [(''z'', Some ''2''), (''a'', Some ''1'')] = ''a=1&z=2'' \<and>
   fordParamString [(''a'', Some ''1''), (''z'', Some ''2'')] = ''a=1&z=2'' \<and>
   toUpperCase ''post'' = ''POST'' \<and>
   createFordSignature ''post'' ''/openapi/lock/v1/control''
     [(''z'', Some ''2''), (''a'', Some ''1'')] ''1'' =
   createFordSignature ''post'' ''/openapi/lock/v1/control''
     [(''a'', Some ''1''), (''z'', Some ''2'')] ''2'' \<and>
   createFordSignature ''post'' ''/openapi/lock/v1/control''
     [(''z'', Some ''2''), (''a'', Some ''1'')] ''1'' =
   md5_hex ''POST/openapi/lock/v1/controla=1&z=24deekof1ba311c5c33a9cb8e12787e8c'' \<and>
   createFordSignature ''post'' ''/openapi/lock/v1/control''
     [(''z'', Some ''2''), (''a'', Some ''1'')] ''1'' = ''731696fe054c4cfe9998ba6a675a7c8c'' \<and>
   fordParamString [(''a'', Some ''1''), (''_'', Some ''3''), (''B'', Some ''2'')] = ''B=2&_=3&a=1''"
proof -
  have a1: "is_ascii ''post''" by code_simp
  have a2: "list_all is_ascii (map fst [(''z'', Some ''2''), (''a'', Some ''1'')])" by code_simp
  have d1: "distinct (map fst [(''z'', Some ''2''), (''a'', Some ''1'')])" by simp
  have d2: "distinct (map fst [(''a'', Some ''1''), (''z'', Some ''2'')])" by simp
  have e: "set [(''z'', Some ''2''), (''a'', Some ''1'')] =
           set [(''a'', Some ''1''), (''z'', Some ''2'')]"
    by auto
  note c = createFordSignature_canonical [OF a1 a2 d1 d2 e, of "''/openapi/lock/v1/control''"
      "''1''" "''2''"]
  have p: "fordParamString [(''a'', Some ''1''), (''z'', Some ''2'')] = ''a=1&z=2''"
    by (simp add: fordParamString_def Object_keys_def template_def params_get_def)
  have q: "fordParamString [(''z'', Some ''2''), (''a'', Some ''1'')] = ''a=1&z=2''"
    using c p by simp
  have r: "createFordSignature ''post'' ''/openapi/lock/v1/control''
             [(''z'', Some ''2''), (''a'', Some ''1'')] ''1'' =
           createFordSignature ''post'' ''/openapi/lock/v1/control''
             [(''a'', Some ''1''), (''z'', Some ''2'')] ''2''"
    using c by (elim conjE)
  have u: "toUpperCase ''post'' = ''POST''" by code_simp
  have s: "createFordSignature ''post'' ''/openapi/lock/v1/control''
             [(''z'', Some ''2''), (''a'', Some ''1'')] ''1'' =
           md5_hex ''POST/openapi/lock/v1/controla=1&z=24deekof1ba311c5c33a9cb8e12787e8c''"
    by (simp add: createFordSignature_def fordSignString_def q u FORD_APP_SECRET_def)
  have v: "md5_hex ''POST/openapi/lock/v1/controla=1&z=24deekof1ba311c5c33a9cb8e12787e8c'' =
           ''731696fe054c4cfe9998ba6a675a7c8c''"
    by code_simp
  have o: "fordParamString [(''a'', Some ''1''), (''_'', Some ''3''), (''B'', Some ''2'')] =
           ''B=2&_=3&a=1''"
    by code_simp
  show ?thesis using p q r s u o s [unfolded v] by (intro conjI)
qed

text \<open>
  C10. The fourth argument of \<^verbatim>\<open>createFordSignature\<close> is not used: any two timestamps give
  the same signature, which is the digest of a string made of the method, the path, the
  parameters and the shared secret only.
\<close>

theorem createFordSignature_ignores_timestamp:
  "createFordSignature method path ps t1 = createFordSignature method path ps t2 \<and>
   createFordSignature method path ps t1 = md5_hex (fordSignString method path ps)"
  by (simp add: createFordSignature_def)

theorem createFordSignature_ignores_timestamp_witness:
  "createFordSignature ''POST'' ''/openapi/lock/v1/control''
     (controlLock_params (Some ''token'') ''1700000000000'' Unlock ''AA:BB'') ''1700000000000'' =
   createFordSignature ''POST'' ''/openapi/lock/v1/control''
     (controlLock_params (Some ''token'') ''1700000000000'' Unlock ''AA:BB'') ''0'' \<and>
   map_of (controlLock_params (Some ''token'') ''1700000000000'' Unlock ''AA:BB'') ''timestamp'' =
     Some (Some ''1700000000000'')"
  using createFordSignature_ignores_timestamp [of "''POST''" "''/openapi/lock/v1/control''"
      "controlLock_params (Some ''token'') ''1700000000000'' Unlock ''AA:BB''"
      "''1700000000000''" "''0''"]
  by (simp add: controlLock_params_def)

section \<open>The token manager\<close>

lemmas body_defs = empty_body_def no_login_response_def top_level_body_def nested_body_def
  mfa_body_def mfa_success_code_body_def failed_body_def refresh_body_without_tokens_def
  refresh_body_empty_tokens_def ok_body_def

lemmas check_defs = login_check_def login_tokens_def truthy_def code_failed_def js_or_def
  template_def code_template_def

lemmas run_defs = ensureValidToken_def isTokenExpired_def isTokenNearExpiry_def Date_now_def
  return_accessToken_def await_then_def login_def refreshToken_def axios_request_def
  scenario_def issued_at_def TOKEN_REFRESH_INTERVAL_def Let_def login_catch_def
  refresh_request_def login_request_def

lemma login_requests:
  "credentials w = Some creds \<Longrightarrow>
   requests (snd (login w)) =
     requests w @ [login_request creds (hashPassword (password creds))
                     (int_toString (shd (clock w)))]"
  by (simp add: login_def Date_now_def axios_request_def Let_def
      split: sum.splits prod.splits)

lemma await_return_requests:
  "requests (snd (await_then f return_accessToken w)) = requests (snd (f w))"
  by (simp add: await_then_def return_accessToken_def split: prod.splits sum.splits option.splits)

lemma refreshToken_requests:
  assumes "currentTokens w = Some toks" and "credentials w = Some creds"
  shows "take (Suc (length (requests w))) (requests (snd (refreshToken w))) =
           requests w @ [refresh_request creds toks (shd (clock w))]"
proof -
  let ?w2 = "w\<lparr>clock := stl (clock w), network := stl (network w),
               requests := requests w @ [refresh_request creds toks (shd (clock w))]\<rparr>"
  have l: "requests (snd (login ?w2)) =
      (requests w @ [refresh_request creds toks (shd (clock w))]) @
      [login_request creds (hashPassword (password creds)) (int_toString (shd (stl (clock w))))]"
    using login_requests [of ?w2 creds] assms(2) by simp
  show ?thesis
    using assms l
    by (simp add: refreshToken_def Date_now_def axios_request_def Let_def
        split: sum.splits option.splits)
qed

text \<open>
  C1. \<^verbatim>\<open>ensureValidToken\<close> reads the clock once to see whether the pair has expired and,
  when it has not, once more to see whether it is near expiry. With no pair, or a first
  reading at or past the expiry, it runs \<^verbatim>\<open>login\<close>, and with credentials set the one request
  it sends is the login request. With a first reading before the expiry and a second one
  within the last hour before it (or later), it runs \<^verbatim>\<open>refreshToken\<close>, and the first request
  it sends is the refresh request with the current refresh token. Otherwise it returns the
  cached access token, sends nothing and leaves the pair as it is. When both readings are
  the same instant these are the three cases of the specification.
\<close>

theorem ensureValidToken_paths:
  "(currentTokens w = None \<longrightarrow>
      ensureValidToken w = await_then login return_accessToken w \<and>
      (credentials w = Some creds \<longrightarrow>
         requests (snd (ensureValidToken w)) =
           requests w @ [login_request creds (hashPassword (password creds))
                           (int_toString (shd (clock w)))])) \<and>
   (currentTokens w = Some toks \<and> expiresAt toks \<le> shd (clock w) \<longrightarrow>
      ensureValidToken w =
        await_then login return_accessToken (w\<lparr>clock := stl (clock w)\<rparr>) \<and>
      (credentials w = Some creds \<longrightarrow>
         requests (snd (ensureValidToken w)) =
           requests w @ [login_request creds (hashPassword (password creds))
                           (int_toString (shd (stl (clock w))))])) \<and>
   (currentTokens w = Some toks \<and> shd (clock w) < expiresAt toks \<and>
    expiresAt toks - 60 * 60 * 1000 \<le> shd (stl (clock w)) \<longrightarrow>
      ensureValidToken w =
        await_then refreshToken return_accessToken (w\<lparr>clock := stl (stl (clock w))\<rparr>) \<and>
      (credentials w = Some creds \<longrightarrow>
         take (Suc (length (requests w))) (requests (snd (ensureValidToken w))) =
           requests w @ [refresh_request creds toks (shd (stl (stl (clock w))))])) \<and>
   (currentTokens w = Some toks \<and> shd (clock w) < expiresAt toks \<and>
    shd (stl (clock w)) < expiresAt toks - 60 * 60 * 1000 \<longrightarrow>
      ensureValidToken w = (Inr (accessToken toks), w\<lparr>clock := stl (stl (clock w))\<rparr>))"
proof -
  have paths:
    "currentTokens w = None \<longrightarrow> ensureValidToken w = await_then login return_accessToken w"
    "currentTokens w = Some toks \<and> expiresAt toks \<le> shd (clock w) \<longrightarrow>
      ensureValidToken w = await_then login return_accessToken (w\<lparr>clock := stl (clock w)\<rparr>)"
    "currentTokens w = Some toks \<and> shd (clock w) < expiresAt toks \<and>
     expiresAt toks - 60 * 60 * 1000 \<le> shd (stl (clock w)) \<longrightarrow>
      ensureValidToken w =
        await_then refreshToken return_accessToken (w\<lparr>clock := stl (stl (clock w))\<rparr>)"
    "currentTokens w = Some toks \<and> shd (clock w) < expiresAt toks \<and>
     shd (stl (clock w)) < expiresAt toks - 60 * 60 * 1000 \<longrightarrow>
      ensureValidToken w = (Inr (accessToken toks), w\<lparr>clock := stl (stl (clock w))\<rparr>)"
    by (simp_all add: ensureValidToken_def isTokenExpired_def isTokenNearExpiry_def Date_now_def
        return_accessToken_def)
  have l1: "requests (snd (await_then login return_accessToken w)) =
      requests w @ [login_request creds (hashPassword (password creds))
                      (int_toString (shd (clock w)))]"
    if "credentials w = Some creds"
    using that login_requests [of w creds] by (simp add: await_return_requests)
  have l2: "requests (snd (await_then login return_accessToken (w\<lparr>clock := stl (clock w)\<rparr>))) =
      requests w @ [login_request creds (hashPassword (password creds))
                      (int_toString (shd (stl (clock w))))]"
    if "credentials w = Some creds"
    using that login_requests [of "w\<lparr>clock := stl (clock w)\<rparr>" creds]
    by (simp add: await_return_requests)
  have r: "take (Suc (length (requests w)))
        (requests (snd (await_then refreshToken return_accessToken
           (w\<lparr>clock := stl (stl (clock w))\<rparr>)))) =
      requests w @ [refresh_request creds toks (shd (stl (stl (clock w))))]"
    if "currentTokens w = Some toks" "credentials w = Some creds"
    using that refreshToken_requests [of "w\<lparr>clock := stl (stl (clock w))\<rparr>" toks creds]
    by (simp add: await_return_requests)
  show ?thesis
    using paths l1 l2 r by (intro conjI impI) simp_all
qed

text \<open>
  A pair issued at T = 1700000000000 expires at T + 48 h. At T + 47 h 1 min the first
  request goes to the refresh endpoint (it times out here, and the login follows); at
  T + 49 h the only request goes to the login endpoint; at T + 1 h the cached token is
  returned and nothing is sent.
\<close>

theorem ensureValidToken_paths_witness:
  "map req_url (requests (snd (ensureValidToken
      (scenario (Some (issued_at 1700000000000)) (1700000000000 + 169260000) (Inl timed_out)))))
     = [API_BASE_URL @ ''/app/user/refresh_token'', AUTH_BASE_URL @ ''/api/user/login''] \<and>
   map req_url (requests (snd (ensureValidToken
      (scenario (Some (issued_at 1700000000000)) (1700000000000 + 176400000) (Inl timed_out)))))
     = [AUTH_BASE_URL @ ''/api/user/login''] \<and>
   ensureValidToken
      (scenario (Some (issued_at 1700000000000)) (1700000000000 + 3600000) (Inl timed_out))
     = (Inr (Some ''access-0''),
        scenario (Some (issued_at 1700000000000)) (1700000000000 + 3600000) (Inl timed_out))"
  using
    ensureValidToken_paths [where w = "scenario (Some (issued_at 1700000000000))
        (1700000000000 + 169260000) (Inl timed_out)" and toks = "issued_at 1700000000000"
        and creds = example_creds]
    ensureValidToken_paths [where w = "scenario (Some (issued_at 1700000000000))
        (1700000000000 + 176400000) (Inl timed_out)" and toks = "issued_at 1700000000000"
        and creds = example_creds]
    ensureValidToken_paths [where w = "scenario (Some (issued_at 1700000000000))
        (1700000000000 + 3600000) (Inl timed_out)" and toks = "issued_at 1700000000000"
        and creds = example_creds]
  by (simp add: run_defs timed_out_def)

text \<open>
  C3. With no token pair \<^verbatim>\<open>refreshToken\<close> is \<^verbatim>\<open>login\<close>. With a pair and credentials, every
  outcome of the refresh call that is not a success (a rejected request, a code other
  than "1" and 1, a body without \<^verbatim>\<open>data\<close>, whose fields cannot be read) makes it return
  what \<^verbatim>\<open>login\<close> returns in the state the request has left. So whenever \<^verbatim>\<open>refreshToken\<close>
  fails, what the caller gets is the result of a \<^verbatim>\<open>login\<close>.
\<close>

theorem refreshToken_falls_back_to_login:
  "(currentTokens w = None \<longrightarrow> refreshToken w = login w) \<and>
   (currentTokens w \<noteq> None \<and> credentials w \<noteq> None \<and> \<not> refresh_succeeded (shd (network w)) \<longrightarrow>
      refreshToken w = login (after_refresh_request w)) \<and>
   (fst (refreshToken w) = Inl err \<longrightarrow>
      refreshToken w = login w \<or> refreshToken w = login (after_refresh_request w))"
  by (auto simp: refreshToken_def after_refresh_request_def refresh_succeeded_def Date_now_def
      axios_request_def login_def Let_def split: option.splits sum.splits prod.splits)

text \<open>
  A refresh answered with a failure code, followed by a login that succeeds, gives the
  pair of the login; a refresh that times out, followed by a login that times out, gives
  the error of the login, after one request to each endpoint.
\<close>

theorem refreshToken_falls_back_to_login_witness:
  "fst (refreshToken ((scenario (Some (issued_at 1700000000000)) 1700169260000 (Inr failed_body))
          \<lparr>network := Inr failed_body ## Inr nested_body ## sconst (Inl timed_out)\<rparr>)) =
     Inr \<lparr>accessToken = Some ''access-1'', refreshTok = Some ''refresh-1'',
          expiresAt = 1700169260000 + 172800000\<rparr> \<and>
   map req_url (requests (snd (refreshToken
          (scenario (Some (issued_at 1700000000000)) 1700169260000 (Inl timed_out))))) =
     [API_BASE_URL @ ''/app/user/refresh_token'', AUTH_BASE_URL @ ''/api/user/login''] \<and>
   fst (refreshToken (scenario (Some (issued_at 1700000000000)) 1700169260000 (Inl timed_out))) =
     Inl (Error ''Login request failed (undefined): timeout of 30000ms exceeded'') \<and>
   refreshToken (scenario None 1700169260000 (Inr nested_body)) =
     login (scenario None 1700169260000 (Inr nested_body))"
proof -
  let ?w1 = "(scenario (Some (issued_at 1700000000000)) 1700169260000 (Inr failed_body))
          \<lparr>network := Inr failed_body ## Inr nested_body ## sconst (Inl timed_out)\<rparr>"
  let ?w2 = "scenario (Some (issued_at 1700000000000)) 1700169260000 (Inl timed_out)"
  let ?w3 = "scenario None 1700169260000 (Inr nested_body)"
  have e1: "refreshToken ?w1 = login (after_refresh_request ?w1)"
    using refreshToken_falls_back_to_login [of ?w1]
    by (simp add: scenario_def refresh_succeeded_def failed_body_def empty_body_def
        code_failed_def)
  have e2: "refreshToken ?w2 = login (after_refresh_request ?w2)"
    using refreshToken_falls_back_to_login [of ?w2]
    by (simp add: scenario_def refresh_succeeded_def)
  have e3: "refreshToken ?w3 = login ?w3"
    using refreshToken_falls_back_to_login [of ?w3]
    by (simp add: scenario_def)
  show ?thesis
    unfolding e1 e2 e3
    by (simp add: after_refresh_request_def run_defs body_defs check_defs timed_out_def
        int_toString_def)
qed

lemma login_check_top_level:
  "truthy (any_access_token b) \<Longrightarrow> truthy (any_refresh_token b) \<Longrightarrow>
   login_check b = Inr (any_access_token b, any_refresh_token b)"
  by (simp add: login_check_def login_tokens_def)

lemma login_check_nested:
  "\<not> truthy (any_access_token b) \<Longrightarrow> data b = Some d \<Longrightarrow> truthy (access_token d) \<Longrightarrow>
   truthy (refresh_token d) \<Longrightarrow> login_check b = Inr (access_token d, refresh_token d)"
  by (simp add: login_check_def login_tokens_def)

lemma login_on_response:
  "credentials w = Some creds \<Longrightarrow> network w = Inr b ## net \<Longrightarrow> login_check b = Inr (a, r) \<Longrightarrow>
   login w = (Inr \<lparr>accessToken = a, refreshTok = r,
                    expiresAt = shd (stl (clock w)) + TOKEN_REFRESH_INTERVAL\<rparr>,
              w\<lparr>clock := stl (stl (clock w)), network := net,
                requests := requests w @ [login_request creds (hashPassword (password creds))
                                           (int_toString (shd (clock w)))],
                currentTokens := Some \<lparr>accessToken = a, refreshTok = r,
                    expiresAt = shd (stl (clock w)) + TOKEN_REFRESH_INTERVAL\<rparr>\<rparr>)"
  by (simp add: login_def Date_now_def axios_request_def Let_def)

text \<open>
  C6. \<^verbatim>\<open>login\<close> takes the token pair from the top level of the body when the top level has
  an access token, whatever \<^verbatim>\<open>data\<close> holds, and from \<^verbatim>\<open>data\<close> otherwise. A body with the pair
  at the top level and a body with the same pair under \<^verbatim>\<open>data\<close> give the same result of
  \<^verbatim>\<open>login\<close>: it succeeds with that pair, expiring 48 hours after the clock reading taken
  when the pair is stored.
\<close>

theorem login_top_level_and_nested:
  assumes "truthy a" and "truthy r"
    and "any_access_token bt = a" and "any_refresh_token bt = r"
    and "\<not> truthy (any_access_token bn)" and "data bn = Some d"
    and "access_token d = a" and "refresh_token d = r"
    and "credentials w = Some creds"
  shows "login_tokens bt = (a, r) \<and> login_tokens bn = (a, r) \<and>
         login (w\<lparr>network := Inr bt ## net\<rparr>) = login (w\<lparr>network := Inr bn ## net\<rparr>) \<and>
         fst (login (w\<lparr>network := Inr bt ## net\<rparr>)) =
           Inr \<lparr>accessToken = a, refreshTok = r,
                expiresAt = shd (stl (clock w)) + TOKEN_REFRESH_INTERVAL\<rparr> \<and>
         currentTokens (snd (login (w\<lparr>network := Inr bn ## net\<rparr>))) =
           Some \<lparr>accessToken = a, refreshTok = r,
                 expiresAt = shd (stl (clock w)) + TOKEN_REFRESH_INTERVAL\<rparr>"
proof -
  have t: "login_check bt = Inr (a, r)"
    using assms login_check_top_level [of bt] by simp
  have n: "login_check bn = Inr (a, r)"
    using assms login_check_nested [of bn d] by simp
  have toks: "login_tokens bt = (a, r) \<and> login_tokens bn = (a, r)"
    using assms by (simp add: login_tokens_def)
  show ?thesis
    using toks assms(9)
      login_on_response [of "w\<lparr>network := Inr bt ## net\<rparr>" creds bt net a r]
      login_on_response [of "w\<lparr>network := Inr bn ## net\<rparr>" creds bn net a r]
      t n
    by simp
qed

theorem login_top_level_and_nested_witness:
  "fst (login (scenario None 1700000000000 (Inr top_level_body))) =
     Inr \<lparr>accessToken = Some ''access-1'', refreshTok = Some ''refresh-1'',
          expiresAt = 1700000000000 + 172800000\<rparr> \<and>
   login (scenario None 1700000000000 (Inr top_level_body)) =
   login (scenario None 1700000000000 (Inr nested_body))"
  using login_top_level_and_nested [where a = "Some ''access-1''" and r = "Some ''refresh-1''"
      and bt = top_level_body and bn = nested_body
      and d = "\<lparr>access_token = Some ''access-1'', refresh_token = Some ''refresh-1'',
                  mfa_options = None\<rparr>"
      and w = "scenario None 1700000000000 (Inr top_level_body)"
      and creds = example_creds and net = "sconst (Inl timed_out)"]
  by (auto simp: truthy_def top_level_body_def nested_body_def empty_body_def scenario_def
      TOKEN_REFRESH_INTERVAL_def)

section \<open>Login failures\<close>

lemma startsWith_append: "startsWith (s @ ys) s"
  by (induction s) auto

lemma startsWith_append_right: "startsWith xs s \<Longrightarrow> startsWith (xs @ ys) s"
  by (induction xs s rule: startsWith.induct) auto

lemma str_includes_nil: "str_includes xs []"
  by (cases xs) auto

lemma str_includes_self: "str_includes (s @ ys) s"
proof (cases "s @ ys")
  case Nil
  then show ?thesis by simp
next
  case (Cons x xs)
  have "startsWith (s @ ys) s" by (rule startsWith_append)
  then show ?thesis unfolding Cons by simp
qed

lemma str_includes_prepend: "str_includes ys s \<Longrightarrow> str_includes (xs @ ys) s"
  by (induction xs) auto

lemma str_includes_append_right: "str_includes xs s \<Longrightarrow> str_includes (xs @ ys) s"
proof (induction xs)
  case Nil
  then show ?case by (simp add: str_includes_nil)
next
  case (Cons x xs)
  then show ?case
    using startsWith_append_right [of "x # xs" s ys] by auto
qed

lemma str_includes_middle: "str_includes (xs @ s @ ys) s"
  by (rule str_includes_prepend) (rule str_includes_self)

lemma str_includes_join: "x \<in> set xs \<Longrightarrow> str_includes (join sep xs) x"
proof (induction sep xs rule: join.induct)
  case (1 sep)
  then show ?case by simp
next
  case (2 sep y)
  then show ?case using str_includes_self [of x "[]"] by simp
next
  case (3 sep y z zs)
  show ?case
  proof (cases "x = y")
    case True
    then show ?thesis using str_includes_self [of y "sep @ join sep (z # zs)"] by simp
  next
    case False
    with 3 have "str_includes (join sep (z # zs)) x" by simp
    then have "str_includes ((y @ sep) @ join sep (z # zs)) x" by (rule str_includes_prepend)
    then show ?thesis by simp
  qed
qed

lemma mfa_message_names: "x \<in> set opts \<Longrightarrow> str_includes (mfa_message opts) x"
proof -
  assume "x \<in> set opts"
  then have "str_includes (join '', '' opts) x" by (rule str_includes_join)
  then have "str_includes (join '', '' opts @ ''. '' @
     ''MFA is not yet supported. Please disable MFA or use a different authentication method.'') x"
    by (rule str_includes_append_right)
  then show ?thesis unfolding mfa_message_def by (rule str_includes_prepend)
qed

lemma mfa_message_not_generic: "\<not> startsWith (mfa_message opts) ''Login failed''"
  by (simp add: mfa_message_def)

lemma login_failed_response:
  "credentials w = Some creds \<Longrightarrow> shd (network w) = Inr b \<Longrightarrow> login_check b = Inl (Error m) \<Longrightarrow>
   fst (login w) = Inl (Error m)"
  by (simp add: login_def Date_now_def axios_request_def Let_def login_catch_def)

text \<open>
  C2, as stated, fails: a body with the success code 1, no access token and the MFA
  options ["sms"] makes \<^verbatim>\<open>login\<close> fail with the generic "No access token in response", not
  with the MFA error.
\<close>

theorem login_mfa_counterexample:
  "fst (login (scenario None 1700000000000 (Inr mfa_success_code_body))) =
     Inl (Error ''Login failed: No access token in response'') \<and>
   fst (login (scenario None 1700000000000 (Inr mfa_success_code_body))) \<noteq>
     Inl (Error (mfa_message [''sms'']))"
  by (simp add: run_defs body_defs check_defs mfa_message_def)

text \<open>
  C2, amended. For a login response with no access token at the top level nor under
  \<^verbatim>\<open>data\<close>: when its code is neither "1" nor 1 and \<^verbatim>\<open>data.mfa_options\<close> is a non-empty list,
  \<^verbatim>\<open>login\<close> fails with the MFA error, whose message has every offered option in it and is
  no "Login failed" message; in every other such case it fails with an error whose message
  starts with "Login failed".
\<close>

theorem login_mfa_required:
  assumes "credentials w = Some creds" and "shd (network w) = Inr b"
    and "\<not> truthy (any_access_token b)"
    and "\<forall>d. data b = Some d \<longrightarrow> \<not> truthy (access_token d)"
  shows "(code_failed (code b) \<and> data b = Some d' \<and> mfa_options d' = Some opts \<and> opts \<noteq> [] \<longrightarrow>
            fst (login w) = Inl (Error (mfa_message opts)) \<and>
            list_all (str_includes (mfa_message opts)) opts \<and>
            \<not> startsWith (mfa_message opts) ''Login failed'') \<and>
         (\<not> (code_failed (code b) \<and>
             (\<exists>d opts. data b = Some d \<and> mfa_options d = Some opts \<and> opts \<noteq> [])) \<longrightarrow>
            (\<exists>m. fst (login w) = Inl (Error m) \<and> startsWith m ''Login failed''))"
proof -
  have absent: "\<not> truthy (fst (login_tokens b))"
    using assms(3,4) by (auto simp: login_tokens_def truthy_def split: option.splits)
  have mfa: "login_check b = Inl (Error (mfa_message opts))"
    if "code_failed (code b)" "data b = Some d'" "mfa_options d' = Some opts" "opts \<noteq> []"
    using that absent
    by (cases opts) (auto simp: login_check_def Let_def split: prod.splits)
  have other: "\<exists>m. login_check b = Inl (Error m) \<and> startsWith m ''Login failed''"
    if "\<not> (code_failed (code b) \<and>
             (\<exists>d opts. data b = Some d \<and> mfa_options d = Some opts \<and> opts \<noteq> []))"
    using that absent
    by (auto simp: login_check_def Let_def split: prod.splits option.splits list.splits)
  show ?thesis
    using mfa other login_failed_response [OF assms(1,2)]
    by (auto simp: list_all_iff mfa_message_names mfa_message_not_generic)
qed

theorem login_mfa_required_witness:
  "fst (login (scenario None 1700000000000 (Inr mfa_body))) =
     Inl (Error (''MFA is required for this account. MFA options: sms. '' @
       ''MFA is not yet supported. Please disable MFA or use a different authentication method.'')) \<and>
   str_includes (mfa_message [''sms'']) ''sms'' \<and>
   fst (login (scenario None 1700000000000 (Inr empty_body))) =
     Inl (Error ''Login failed (code undefined): {}'')"
proof -
  let ?w = "scenario None 1700000000000 (Inr mfa_body)"
  let ?d = "no_login_response\<lparr>mfa_options := Some [''sms'']\<rparr>"
  have h: "credentials ?w = Some example_creds" "shd (network ?w) = Inr mfa_body"
    "\<not> truthy (any_access_token mfa_body)"
    "\<forall>d. data mfa_body = Some d \<longrightarrow> \<not> truthy (access_token d)"
    "code_failed (code mfa_body) \<and> data mfa_body = Some ?d \<and>
     mfa_options ?d = Some [''sms''] \<and> [''sms''] \<noteq> []"
    by (simp_all add: scenario_def mfa_body_def empty_body_def no_login_response_def truthy_def
        code_failed_def)
  have a: "fst (login ?w) = Inl (Error (mfa_message [''sms''])) \<and>
           list_all (str_includes (mfa_message [''sms''])) [''sms'']"
    using login_mfa_required [OF h(1-4), where d' = ?d and opts = "[''sms'']"] h(5)
    by blast
  have g: "fst (login (scenario None 1700000000000 (Inr empty_body))) =
     Inl (Error ''Login failed (code undefined): {}'')"
    by (simp add: run_defs empty_body_def login_check_def login_tokens_def truthy_def
        code_failed_def js_or_def template_def code_template_def)
  show ?thesis using a g by (simp add: mfa_message_def)
qed

section \<open>The stored token pair\<close>

text \<open>
  C7. \<^verbatim>\<open>refreshToken\<close> stores the fields of \<^verbatim>\<open>data.data\<close> without the check that \<^verbatim>\<open>login\<close>
  makes. From a state with a whole pair, a refresh response with code 1 and a \<^verbatim>\<open>data\<close>
  object without tokens leaves a pair with an expiry and two undefined tokens, and
  \<^verbatim>\<open>ensureValidToken\<close> returns \<^verbatim>\<open>undefined\<close>; with empty strings for tokens it leaves a pair
  of empty tokens. \<^verbatim>\<open>login\<close> rejects the same body.
\<close>

theorem refreshToken_stores_unchecked_pair:
  "tokens_wholly_present_or_absent
     (scenario (Some (issued_at 1700000000000)) 1700169260000 (Inr refresh_body_without_tokens)) \<and>
   currentTokens (snd (refreshToken
     (scenario (Some (issued_at 1700000000000)) 1700169260000 (Inr refresh_body_without_tokens)))) =
     Some \<lparr>accessToken = None, refreshTok = None, expiresAt = 1700169260000 + 172800000\<rparr> \<and>
   \<not> tokens_wholly_present_or_absent (snd (refreshToken
     (scenario (Some (issued_at 1700000000000)) 1700169260000 (Inr refresh_body_without_tokens)))) \<and>
   fst (ensureValidToken
     (scenario (Some (issued_at 1700000000000)) 1700169260000 (Inr refresh_body_without_tokens))) =
     Inr None \<and>
   currentTokens (snd (refreshToken
     (scenario (Some (issued_at 1700000000000)) 1700169260000 (Inr refresh_body_empty_tokens)))) =
     Some \<lparr>accessToken = Some '''', refreshTok = Some '''', expiresAt = 1700169260000 + 172800000\<rparr> \<and>
   \<not> tokens_wholly_present_or_absent (snd (refreshToken
     (scenario (Some (issued_at 1700000000000)) 1700169260000 (Inr refresh_body_empty_tokens)))) \<and>
   fst (login (scenario None 1700169260000 (Inr refresh_body_empty_tokens))) =
     Inl (Error ''Login failed: No access token in response'')"
  by (simp add: run_defs body_defs check_defs tokens_wholly_present_or_absent_def
      pair_populated_def)

text \<open>
  \<^verbatim>\<open>login\<close> keeps the pair whole, and a successful \<^verbatim>\<open>login\<close> or \<^verbatim>\<open>refreshToken\<close> replaces the
  whole pair, with the expiry 48 hours after the clock reading taken at that moment.
\<close>

lemma setCredentials_keeps_pair: "currentTokens (setCredentials creds w) = currentTokens w"
  by (simp add: setCredentials_def)

lemma login_check_Inr: "login_check b = Inr (a, r) \<Longrightarrow> truthy a \<and> truthy r"
  by (auto simp: login_check_def Let_def split: prod.splits if_splits option.splits list.splits)

lemma login_keeps_pair_whole:
  "tokens_wholly_present_or_absent w \<Longrightarrow> tokens_wholly_present_or_absent (snd (login w))"
  by (auto simp: login_def Date_now_def axios_request_def Let_def
      tokens_wholly_present_or_absent_def pair_populated_def
      split: option.splits sum.splits prod.splits dest: login_check_Inr)

lemma login_success_replaces_pair:
  "login w = (Inr toks, w') \<Longrightarrow>
   currentTokens w' = Some toks \<and> pair_populated toks \<and>
   expiresAt toks = shd (stl (clock w)) + TOKEN_REFRESH_INTERVAL"
  by (auto simp: login_def Date_now_def axios_request_def Let_def pair_populated_def
      split: option.splits sum.splits prod.splits dest: login_check_Inr)

lemma refreshToken_success_replaces_pair:
  "refreshToken w = (Inr toks, w') \<Longrightarrow> currentTokens w' = Some toks"
  by (auto simp: refreshToken_def login_def Date_now_def axios_request_def Let_def
      split: option.splits sum.splits prod.splits if_splits)

section \<open>Brightness and colour temperature\<close>

lemmas api_defs = setDeviceProperty_def createBasePayload_def set_property_request_def
  setDeviceBrightness_def setDeviceColorTemp_def sent_pvalues_def

lemma setDeviceProperty_transmits:
  "ensureValidToken w = (Inr tok, w1) \<Longrightarrow>
   requests (snd (setDeviceProperty mac model pid pv w)) =
     requests w1 @ [set_property_request (fst (createBasePayload tok w1)) mac model pid pv]"
  by (simp add: setDeviceProperty_def createBasePayload_def Date_now_def axios_request_def
      Let_def split: sum.splits prod.splits)

lemma round_nearest: "\<bar>real_of_int \<lfloor>x + 1 / 2\<rfloor> - x\<bar> \<le> 1 / 2"
  by linarith

text \<open>
  No caller passes \<^verbatim>\<open>NaN\<close>: the values come from the tool layer, which admits integers
  within the range only. \<^verbatim>\<open>Math.round\<close>, \<^verbatim>\<open>Math.min\<close> and \<^verbatim>\<open>Math.max\<close> would hand it on.
\<close>

lemma setDevice_NaN_handed_on:
  "sent_pvalues (snd (setDeviceBrightness ''AA:BB'' ''WLPA19'' NaN
      (scenario (Some (issued_at 1700000000000)) 1700003600000 (Inr ok_body)))) =
     [Some (JStr ''NaN'')] \<and>
   sent_pvalues (snd (setDeviceColorTemp ''AA:BB'' ''WLPA19'' NaN
      (scenario (Some (issued_at 1700000000000)) 1700003600000 (Inr ok_body)))) =
     [Some (JStr ''NaN'')]"
  by (simp add: run_defs api_defs body_defs code_failed_def)

text \<open>
  C8. For every number, a finite value or an infinity, \<^verbatim>\<open>setDeviceBrightness\<close> is
  \<^verbatim>\<open>setDeviceProperty\<close> on the decimal string of the input rounded to a nearest integer (at
  most one half away) and clamped to 1..100, and \<^verbatim>\<open>setDeviceColorTemp\<close> likewise with
  2700..6500; an infinite input is sent as the bound on its side. Neither function has an
  error of its own, and when the token is obtained the request sent last carries that
  string as \<^verbatim>\<open>pvalue\<close>.
\<close>

theorem setDevice_clamps:
  "setDeviceBrightness mac model (Num x) w =
     setDeviceProperty mac model PropertyId_BRIGHTNESS
       (int_toString (max 1 (min 100 \<lfloor>x + 1 / 2\<rfloor>))) w \<and>
   setDeviceBrightness mac model PosInfinity w =
     setDeviceProperty mac model PropertyId_BRIGHTNESS (int_toString 100) w \<and>
   setDeviceBrightness mac model NegInfinity w =
     setDeviceProperty mac model PropertyId_BRIGHTNESS (int_toString 1) w \<and>
   setDeviceColorTemp mac model (Num x) w =
     setDeviceProperty mac model PropertyId_COLOR_TEMP
       (int_toString (max 2700 (min 6500 \<lfloor>x + 1 / 2\<rfloor>))) w \<and>
   setDeviceColorTemp mac model PosInfinity w =
     setDeviceProperty mac model PropertyId_COLOR_TEMP (int_toString 6500) w \<and>
   setDeviceColorTemp mac model NegInfinity w =
     setDeviceProperty mac model PropertyId_COLOR_TEMP (int_toString 2700) w \<and>
   \<bar>real_of_int \<lfloor>x + 1 / 2\<rfloor> - x\<bar> \<le> 1 / 2 \<and>
   1 \<le> max 1 (min 100 \<lfloor>x + 1 / 2\<rfloor>) \<and> max 1 (min 100 \<lfloor>x + 1 / 2\<rfloor>) \<le> 100 \<and>
   2700 \<le> max 2700 (min 6500 \<lfloor>x + 1 / 2\<rfloor>) \<and> max 2700 (min 6500 \<lfloor>x + 1 / 2\<rfloor>) \<le> 6500 \<and>
   (ensureValidToken w = (Inr tok, w1) \<longrightarrow>
      requests (snd (setDeviceBrightness mac model (Num x) w)) =
        requests w1 @ [set_property_request (fst (createBasePayload tok w1)) mac model
          PropertyId_BRIGHTNESS (int_toString (max 1 (min 100 \<lfloor>x + 1 / 2\<rfloor>)))] \<and>
      requests (snd (setDeviceColorTemp mac model (Num x) w)) =
        requests w1 @ [set_property_request (fst (createBasePayload tok w1)) mac model
          PropertyId_COLOR_TEMP (int_toString (max 2700 (min 6500 \<lfloor>x + 1 / 2\<rfloor>)))])"
proof -
  have b: "setDeviceBrightness mac model (Num x) w =
     setDeviceProperty mac model PropertyId_BRIGHTNESS
       (int_toString (max 1 (min 100 \<lfloor>x + 1 / 2\<rfloor>))) w"
    by (simp add: setDeviceBrightness_def)
  have c: "setDeviceColorTemp mac model (Num x) w =
     setDeviceProperty mac model PropertyId_COLOR_TEMP
       (int_toString (max 2700 (min 6500 \<lfloor>x + 1 / 2\<rfloor>))) w"
    by (simp add: setDeviceColorTemp_def)
  have inf: "setDeviceBrightness mac model PosInfinity w =
     setDeviceProperty mac model PropertyId_BRIGHTNESS (int_toString 100) w \<and>
   setDeviceBrightness mac model NegInfinity w =
     setDeviceProperty mac model PropertyId_BRIGHTNESS (int_toString 1) w \<and>
   setDeviceColorTemp mac model PosInfinity w =
     setDeviceProperty mac model PropertyId_COLOR_TEMP (int_toString 6500) w \<and>
   setDeviceColorTemp mac model NegInfinity w =
     setDeviceProperty mac model PropertyId_COLOR_TEMP (int_toString 2700) w"
    by (simp add: setDeviceBrightness_def setDeviceColorTemp_def)
  have sent: "requests (snd (setDeviceBrightness mac model (Num x) w)) =
        requests w1 @ [set_property_request (fst (createBasePayload tok w1)) mac model
          PropertyId_BRIGHTNESS (int_toString (max 1 (min 100 \<lfloor>x + 1 / 2\<rfloor>)))] \<and>
      requests (snd (setDeviceColorTemp mac model (Num x) w)) =
        requests w1 @ [set_property_request (fst (createBasePayload tok w1)) mac model
          PropertyId_COLOR_TEMP (int_toString (max 2700 (min 6500 \<lfloor>x + 1 / 2\<rfloor>)))]"
    if "ensureValidToken w = (Inr tok, w1)"
    unfolding b c using that by (simp add: setDeviceProperty_transmits)
  show ?thesis
    using b c inf sent round_nearest [of x] by (intro conjI impI) simp_all
qed

text \<open>Brightness 150 is sent as "100" and 0 as "1"; colour temperature 2000 as "2700".\<close>

theorem setDevice_clamps_witness:
  "sent_pvalues (snd (setDeviceBrightness ''AA:BB'' ''WLPA19'' (Num 150)
      (scenario (Some (issued_at 1700000000000)) 1700003600000 (Inr ok_body)))) =
     [Some (JStr ''100'')] \<and>
   sent_pvalues (snd (setDeviceBrightness ''AA:BB'' ''WLPA19'' (Num 0)
      (scenario (Some (issued_at 1700000000000)) 1700003600000 (Inr ok_body)))) =
     [Some (JStr ''1'')] \<and>
   sent_pvalues (snd (setDeviceColorTemp ''AA:BB'' ''WLPA19'' (Num 2000)
      (scenario (Some (issued_at 1700000000000)) 1700003600000 (Inr ok_body)))) =
     [Some (JStr ''2700'')]"
proof -
  let ?w = "scenario (Some (issued_at 1700000000000)) 1700003600000 (Inr ok_body)"
  have tok: "ensureValidToken ?w = (Inr (Some ''access-0''), ?w)"
    by (simp add: run_defs)
  have s: "int_toString 100 = ''100''" "int_toString 1 = ''1''" "int_toString 2700 = ''2700''"
    by (simp_all add: int_toString_def dec_digits.simps digit_char_def)
  have none: "requests ?w = []"
    by (simp add: scenario_def)
  have a: "requests (snd (setDeviceBrightness ''AA:BB'' ''WLPA19'' (Num 150) ?w)) =
      requests ?w @ [set_property_request (fst (createBasePayload (Some ''access-0'') ?w))
        ''AA:BB'' ''WLPA19'' PropertyId_BRIGHTNESS
        (int_toString (max 1 (min 100 \<lfloor>(150::real) + 1 / 2\<rfloor>)))]"
    using setDevice_clamps [of "''AA:BB''" "''WLPA19''" 150 ?w "Some ''access-0''" ?w] tok
    by blast
  have b: "requests (snd (setDeviceBrightness ''AA:BB'' ''WLPA19'' (Num 0) ?w)) =
      requests ?w @ [set_property_request (fst (createBasePayload (Some ''access-0'') ?w))
        ''AA:BB'' ''WLPA19'' PropertyId_BRIGHTNESS
        (int_toString (max 1 (min 100 \<lfloor>(0::real) + 1 / 2\<rfloor>)))]"
    using setDevice_clamps [of "''AA:BB''" "''WLPA19''" 0 ?w "Some ''access-0''" ?w] tok
    by blast
  have c: "requests (snd (setDeviceColorTemp ''AA:BB'' ''WLPA19'' (Num 2000) ?w)) =
      requests ?w @ [set_property_request (fst (createBasePayload (Some ''access-0'') ?w))
        ''AA:BB'' ''WLPA19'' PropertyId_COLOR_TEMP
        (int_toString (max 2700 (min 6500 \<lfloor>(2000::real) + 1 / 2\<rfloor>)))]"
    using setDevice_clamps [of "''AA:BB''" "''WLPA19''" 2000 ?w "Some ''access-0''" ?w] tok
    by blast
  have v: "max 1 (min 100 \<lfloor>(150::real) + 1 / 2\<rfloor>) = 100"
    "max 1 (min 100 \<lfloor>(0::real) + 1 / 2\<rfloor>) = 1"
    "max 2700 (min 6500 \<lfloor>(2000::real) + 1 / 2\<rfloor>) = 2700"
    by simp_all
  show ?thesis
    unfolding sent_pvalues_def a b c v s none
    by (simp add: set_property_request_def createBasePayload_def Date_now_def map_add_def)
qed

section \<open>The error classifier\<close>

text \<open>
  C9, as stated, fails on a DNS failure: its message tells the user to check the internet
  connection and says nothing of trying again.
\<close>

theorem handleApiError_dns_counterexample:
  "handleApiError (Axios dns_failure) =
     ''Error: Unable to reach Wyze servers. Please check your internet connection.'' \<and>
   \<not> suggests_retry (handleApiError (Axios dns_failure))"
proof -
  have m: "handleApiError (Axios dns_failure) =
     ''Error: Unable to reach Wyze servers. Please check your internet connection.''"
    by (simp add: handleApiError_def dns_failure_def)
  have "\<not> suggests_retry
     ''Error: Unable to reach Wyze servers. Please check your internet connection.''"
    by code_simp
  with m show ?thesis by simp
qed

lemma retry_timeout: "suggests_retry ''Error: Request timed out. Please try again.''"
  by code_simp

lemma backoff_rate_limit:
  "advises_backoff ''Error: Rate limit exceeded. Please wait before making more requests.''"
  by code_simp

lemma startsWith_prefix: "startsWith (p @ s) p"
  by (induction p) auto

text \<open>
  C9, amended. \<^verbatim>\<open>handleApiError\<close> gives a 404 response the not-found message about the
  device MAC address, a 429 response the rate-limit message, which says to wait, a timeout
  the message that says to try again, and a DNS failure the message that says to check the
  internet connection. The messages of the statuses 401, 403, 404 and 429 and of the two
  transport failures are six different strings; every other status gets an
  "API request failed" message, and an error thrown by the client for a failure code
  ("Failed to ...") gets neither transport message.
\<close>

theorem handleApiError_classification:
  "(response e = Some r \<and> status r = 401 \<longrightarrow> handleApiError (Axios e) =
      ''Error: Authentication failed. Please check your credentials.'') \<and>
   (response e = Some r \<and> status r = 403 \<longrightarrow> handleApiError (Axios e) =
      ''Error: Access denied. You may not have permission for this operation.'') \<and>
   (response e = Some r \<and> status r = 404 \<longrightarrow> handleApiError (Axios e) =
      ''Error: Resource not found. Please check the device MAC address.'') \<and>
   (response e = Some r \<and> status r = 429 \<longrightarrow> handleApiError (Axios e) =
      ''Error: Rate limit exceeded. Please wait before making more requests.'' \<and>
      advises_backoff (handleApiError (Axios e))) \<and>
   (response e = Some r \<and> status r \<notin> {401, 403, 404, 429} \<longrightarrow>
      startsWith (handleApiError (Axios e)) ''Error: API request failed ('') \<and>
   (response e = None \<and> error_code e = Some ''ECONNABORTED'' \<longrightarrow> handleApiError (Axios e) =
      ''Error: Request timed out. Please try again.'' \<and>
      suggests_retry (handleApiError (Axios e))) \<and>
   (response e = None \<and> error_code e = Some ''ENOTFOUND'' \<longrightarrow> handleApiError (Axios e) =
      ''Error: Unable to reach Wyze servers. Please check your internet connection.'') \<and>
   (startsWith m ''Failed to '' \<longrightarrow> handleApiError (Error m) = ''Error: '' @ m \<and>
      handleApiError (Error m) \<noteq> ''Error: Request timed out. Please try again.'' \<and>
      handleApiError (Error m) \<noteq>
        ''Error: Unable to reach Wyze servers. Please check your internet connection.'') \<and>
   distinct (status_messages @
      [''Error: Request timed out. Please try again.'',
       ''Error: Unable to reach Wyze servers. Please check your internet connection.''])"
proof -
  have logical: "handleApiError (Error m) \<noteq> ''Error: Request timed out. Please try again.'' \<and>
      handleApiError (Error m) \<noteq>
        ''Error: Unable to reach Wyze servers. Please check your internet connection.''"
    if "startsWith m ''Failed to ''"
    using that by (auto simp: handleApiError_def)
  have other: "startsWith (handleApiError (Axios e)) ''Error: API request failed (''"
    if "response e = Some r" "status r \<notin> {401, 403, 404, 429}"
    using that startsWith_prefix [of "''Error: API request failed (''"]
    by (simp add: handleApiError_def Let_def)
  have d: "distinct (status_messages @
      [''Error: Request timed out. Please try again.'',
       ''Error: Unable to reach Wyze servers. Please check your internet connection.''])"
    by (simp add: status_messages_def handleApiError_def http_failure_def)
  show ?thesis
    using logical other d retry_timeout backoff_rate_limit
    by (intro conjI impI) (simp_all add: handleApiError_def)
qed

theorem handleApiError_classification_witness:
  "handleApiError (Axios (http_failure 404)) =
     ''Error: Resource not found. Please check the device MAC address.'' \<and>
   handleApiError (Axios (http_failure 429)) =
     ''Error: Rate limit exceeded. Please wait before making more requests.'' \<and>
   handleApiError (Axios timed_out) = ''Error: Request timed out. Please try again.'' \<and>
   suggests_retry (handleApiError (Axios timed_out)) \<and>
   handleApiError (Axios (http_failure 500)) = ''Error: API request failed (500): Unknown error''"
proof -
  have r: "response (http_failure st) = Some \<lparr>status = st, response_data = None\<rparr>" for st
    by (simp add: http_failure_def)
  have a: "handleApiError (Axios (http_failure 404)) =
     ''Error: Resource not found. Please check the device MAC address.''"
    using handleApiError_classification [where e = "http_failure 404"
        and r = "\<lparr>status = 404, response_data = None\<rparr>" and m = "[]"] r
    by simp
  have b: "handleApiError (Axios (http_failure 429)) =
     ''Error: Rate limit exceeded. Please wait before making more requests.''"
    using handleApiError_classification [where e = "http_failure 429"
        and r = "\<lparr>status = 429, response_data = None\<rparr>" and m = "[]"] r
    by simp
  have c: "handleApiError (Axios timed_out) = ''Error: Request timed out. Please try again.'' \<and>
           suggests_retry (handleApiError (Axios timed_out))"
    using handleApiError_classification [where e = timed_out and m = "[]"]
    by (auto simp: timed_out_def)
  have d: "handleApiError (Axios (http_failure 500)) = ''Error: API request failed (500): Unknown error''"
    by (simp add: handleApiError_def http_failure_def int_toString_def dec_digits.simps
        digit_char_def js_nullish_def template_def)
  show ?thesis using a b c d by blast
qed

end
